theory Spec2Isabelle
  imports Complex_Main "HOL-Library.Sublist"
begin

section \<open>Decoded JSON values and the Python operations the program applies to them\<close>

text \<open>
  The program reads every remote reply through \<^verbatim>\<open>.json()\<close> and keeps most fields as
  decoded, without coercion. A decoded value is a \<open>json\<close>; a dictionary is an association
  list read with \<open>map_of\<close>. Python integers are \<open>int\<close>. \<open>JFloat r\<close> is a finite float,
  written by a real \<open>r\<close> within the range of the floats: the float is the binary64
  number nearest to \<open>r\<close> (\<open>r\<close> itself when \<open>r\<close> is such a number), as Python's
  decoder produces it. Infinities and NaN are not values of this type.
\<close>

datatype json =
    JNull
  | JBool bool
  | JInt int
  | JFloat real
  | JStr string
  | JArr "json list"
  | JObj "(string \<times> json) list"

datatype error =
    NoResponseError
  | KeyError
  | TypeError
  | ValueError
  | IndexError
  | ZeroDivisionError
  | RequestException
  | JSONDecodeError
  | OverflowError

definition ebind :: "error + 'a \<Rightarrow> ('a \<Rightarrow> error + 'b) \<Rightarrow> error + 'b" where
  "ebind m f = (case m of Inl e \<Rightarrow> Inl e | Inr v \<Rightarrow> f v)"

fun emap :: "('a \<Rightarrow> error + 'b) \<Rightarrow> 'a list \<Rightarrow> error + 'b list" where
  "emap f [] = Inr []"
| "emap f (x # xs) = ebind (f x) (\<lambda>y. ebind (emap f xs) (\<lambda>ys. Inr (y # ys)))"

section \<open>Python floats\<close>

text \<open>
  A finite Python float is an IEEE binary64 number, represented here by its exact real
  value. \<open>round_double x\<close> is the binary64 number nearest to \<open>x\<close>: 53 significant bits,
  ties to the even significand, steps of \<open>2 powi (- 1074)\<close> below \<open>2 powi (- 1022)\<close>, and
  no bound on the exponent from above. A rounded magnitude of \<open>2 ^ 1024\<close> or more does
  not fit a float: \<open>float_overflow\<close>.
\<close>

definition round_half_even :: "real \<Rightarrow> int" where
  "round_half_even y =
     (let f = \<lfloor>y\<rfloor> in
      if y - of_int f < 1 / 2 then f
      else if 1 / 2 < y - of_int f then f + 1
      else if even f then f else f + 1)"

definition ulp_exp :: "real \<Rightarrow> int" where
  "ulp_exp x = max \<lfloor>log 2 \<bar>x\<bar>\<rfloor> (- 1022) - 52"

definition round_double :: "real \<Rightarrow> real" where
  "round_double x =
     (if x = 0 then 0
      else of_int (round_half_even (x / 2 powi ulp_exp x)) * 2 powi ulp_exp x)"

definition float_overflow :: "real \<Rightarrow> bool" where
  "float_overflow x = (2 ^ 1024 \<le> \<bar>round_double x\<bar>)"

text \<open>
  \<^verbatim>\<open>a - b\<close> and \<^verbatim>\<open>a + b\<close> on floats: the exact result, rounded. Where the program uses
  them one operand is at most 800 in magnitude and the other is a finite float, so the
  result is finite.
\<close>

definition float_sub :: "real \<Rightarrow> real \<Rightarrow> real" where
  "float_sub a b = round_double (a - b)"

definition float_add :: "real \<Rightarrow> real \<Rightarrow> real" where
  "float_add a b = round_double (a + b)"

text \<open>
  \<^verbatim>\<open>a * b\<close> on floats; a result of magnitude \<open>2 ^ 1024\<close> or more stands for an
  infinity, which Python returns without raising.
\<close>

definition float_mul :: "real \<Rightarrow> real \<Rightarrow> real" where
  "float_mul a b = round_double (a * b)"

text \<open>
  \<^verbatim>\<open>a / b\<close> on integers: the exact quotient rounded to a float, \<^verbatim>\<open>ZeroDivisionError\<close>
  on a zero divisor, \<^verbatim>\<open>OverflowError\<close> when the quotient does not fit a float.
\<close>

definition int_truediv :: "int \<Rightarrow> int \<Rightarrow> error + real" where
  "int_truediv a b =
     (if b = 0 then Inl ZeroDivisionError
      else if float_overflow (of_int a / of_int b) then Inl OverflowError
      else Inr (round_double (of_int a / of_int b)))"

section \<open>Python operations on decoded values\<close>

text \<open>Truth value of a decoded value, as \<^verbatim>\<open>if v:\<close> tests it.\<close>

fun truthy :: "json \<Rightarrow> bool" where
  "truthy JNull = False"
| "truthy (JBool b) = b"
| "truthy (JInt i) = (i \<noteq> 0)"
| "truthy (JFloat r) = (round_double r \<noteq> 0)"
| "truthy (JStr s) = (s \<noteq> [])"
| "truthy (JArr xs) = (xs \<noteq> [])"
| "truthy (JObj kvs) = (kvs \<noteq> [])"

text \<open>\<^verbatim>\<open>v[k]\<close> with a string key: only a dictionary can answer.\<close>

fun py_getitem :: "json \<Rightarrow> string \<Rightarrow> error + json" where
  "py_getitem (JObj kvs) k = (case map_of kvs k of None \<Rightarrow> Inl KeyError | Some v \<Rightarrow> Inr v)"
| "py_getitem _ k = Inl TypeError"

text \<open>\<^verbatim>\<open>v[0]\<close>.\<close>

fun py_first :: "json \<Rightarrow> error + json" where
  "py_first (JArr xs) = (case xs of [] \<Rightarrow> Inl IndexError | x # _ \<Rightarrow> Inr x)"
| "py_first (JStr s) = (case s of [] \<Rightarrow> Inl IndexError | c # _ \<Rightarrow> Inr (JStr [c]))"
| "py_first (JObj kvs) = Inl KeyError"
| "py_first _ = Inl TypeError"

text \<open>\<^verbatim>\<open>k in v\<close> with a string \<open>k\<close>.\<close>

fun py_contains :: "string \<Rightarrow> json \<Rightarrow> error + bool" where
  "py_contains k (JObj kvs) = Inr (map_of kvs k \<noteq> None)"
| "py_contains k (JArr xs) = Inr (JStr k \<in> set xs)"
| "py_contains k (JStr s) = Inr (sublist k s)"
| "py_contains k _ = Inl TypeError"

text \<open>\<^verbatim>\<open>for x in v\<close>: the elements visited.\<close>

fun py_iter :: "json \<Rightarrow> error + json list" where
  "py_iter (JArr xs) = Inr xs"
| "py_iter (JObj kvs) = Inr (map JStr (remdups (map fst kvs)))"
| "py_iter (JStr s) = Inr (map (\<lambda>c. JStr [c]) s)"
| "py_iter _ = Inl TypeError"

text \<open>
  \<^verbatim>\<open>int(v)\<close>. The conversion of a string is Python's own and is a parameter \<open>si\<close>
  (\<open>None\<close> where Python raises \<^verbatim>\<open>ValueError\<close>); a float is truncated towards zero.
\<close>

fun py_int :: "(string \<Rightarrow> int option) \<Rightarrow> json \<Rightarrow> error + int" where
  "py_int si (JInt i) = Inr i"
| "py_int si (JBool b) = Inr (if b then 1 else 0)"
| "py_int si (JFloat r) =
     Inr (if round_double r < 0 then \<lceil>round_double r\<rceil> else \<lfloor>round_double r\<rfloor>)"
| "py_int si (JStr s) = (case si s of None \<Rightarrow> Inl ValueError | Some i \<Rightarrow> Inr i)"
| "py_int si _ = Inl TypeError"

text \<open>
  The exact value of a number; \<open>None\<close> for what is not a number. Python compares an
  integer with a float by their exact values, without converting the integer.
\<close>

fun py_num :: "json \<Rightarrow> real option" where
  "py_num (JInt i) = Some (of_int i)"
| "py_num (JFloat r) = Some (round_double r)"
| "py_num (JBool b) = Some (if b then 1 else 0)"
| "py_num _ = None"

text \<open>\<^verbatim>\<open>v >= c\<close> for a float \<open>c\<close>; what is not a number raises \<^verbatim>\<open>TypeError\<close>.\<close>

definition py_ge :: "json \<Rightarrow> real \<Rightarrow> error + bool" where
  "py_ge v c = (case py_num v of None \<Rightarrow> Inl TypeError | Some r \<Rightarrow> Inr (c \<le> r))"

text \<open>
  The float an operand becomes in arithmetic with a float: an integer is rounded to the
  nearest float and raises \<^verbatim>\<open>OverflowError\<close> when it is too large, what is not a number
  raises \<^verbatim>\<open>TypeError\<close>.
\<close>

fun py_float :: "json \<Rightarrow> error + real" where
  "py_float (JInt i) =
     (if float_overflow (of_int i) then Inl OverflowError else Inr (round_double (of_int i)))"
| "py_float (JFloat r) = Inr (round_double r)"
| "py_float (JBool b) = Inr (if b then 1 else 0)"
| "py_float _ = Inl TypeError"

text \<open>
  \<^verbatim>\<open>{1: .., 2: .., 3: .., 4: ..}.get(v)\<close>: a key matches by value (\<^verbatim>\<open>1 == 1.0 == True\<close>),
  a list or a dictionary cannot be hashed.
\<close>

fun py_int_key :: "json \<Rightarrow> error + int option" where
  "py_int_key (JInt i) = Inr (Some i)"
| "py_int_key (JBool b) = Inr (Some (if b then 1 else 0))"
| "py_int_key (JFloat r) =
     Inr (if of_int \<lfloor>round_double r\<rfloor> = round_double r then Some \<lfloor>round_double r\<rfloor> else None)"
| "py_int_key JNull = Inr None"
| "py_int_key (JStr s) = Inr None"
| "py_int_key _ = Inl TypeError"

definition dict_get :: "(int \<times> 'a) list \<Rightarrow> json \<Rightarrow> error + 'a option" where
  "dict_get table v =
     ebind (py_int_key v) (\<lambda>k. Inr (case k of None \<Rightarrow> None | Some i \<Rightarrow> map_of table i))"

text \<open>
  \<^verbatim>\<open>a is b\<close> on two integers that were built apart: CPython shares the integers from
  -5 to 256 and no others.
\<close>

definition py_is_int :: "int \<Rightarrow> int \<Rightarrow> bool" where
  "py_is_int a b = (a = b \<and> - 5 \<le> a \<and> a \<le> 256)"

section \<open>Domain model\<close>

record PlayerInfo =
  active_planet :: int
  level :: int
  score :: int
  next_level_score :: int

record PlanetSummary =
  ps_id :: int
  ps_name :: json

record Zone =
  zone_position :: json
  zone_type :: json
  difficulty :: json
  captured :: json
  capture_progress :: json

record PlanetDetails =
  pd_id :: int
  pd_name :: json
  zones :: "Zone list"

record PlanetZoneTuple =
  planet_details :: PlanetDetails
  zone :: Zone

definition PlayerInfo_from_json :: "(string \<Rightarrow> int option) \<Rightarrow> json \<Rightarrow> error + PlayerInfo" where
  "PlayerInfo_from_json si j =
     ebind (py_contains ''active_planet'' j) (\<lambda>has.
     ebind (if has then ebind (py_getitem j ''active_planet'') (py_int si) else Inr (- 1)) (\<lambda>ap.
     ebind (ebind (py_getitem j ''level'') (py_int si)) (\<lambda>l.
     ebind (ebind (py_getitem j ''score'') (py_int si)) (\<lambda>s.
     ebind (ebind (py_getitem j ''next_level_score'') (py_int si)) (\<lambda>n.
     Inr \<lparr>active_planet = ap, level = l, score = s, next_level_score = n\<rparr>)))))"

text \<open>
  \<^verbatim>\<open>completion\<close>: the percentage, a float, before it is printed with two decimals. The
  division is Python's, which raises on a zero divisor.
\<close>

definition completion :: "PlayerInfo \<Rightarrow> error + real" where
  "completion p =
     ebind (int_truediv (score p) (next_level_score p)) (\<lambda>q. Inr (float_mul q 100))"

definition PlanetSummary_from_json :: "(string \<Rightarrow> int option) \<Rightarrow> json \<Rightarrow> error + PlanetSummary" where
  "PlanetSummary_from_json si j =
     ebind (ebind (py_getitem j ''id'') (py_int si)) (\<lambda>i.
     ebind (ebind (py_getitem j ''state'') (\<lambda>st. py_getitem st ''name'')) (\<lambda>n.
     Inr \<lparr>ps_id = i, ps_name = n\<rparr>))"

definition Zone_from_json :: "json \<Rightarrow> error + Zone" where
  "Zone_from_json j =
     ebind (py_getitem j ''zone_position'') (\<lambda>zp.
     ebind (py_getitem j ''type'') (\<lambda>ty.
     ebind (py_getitem j ''difficulty'') (\<lambda>d.
     ebind (py_getitem j ''captured'') (\<lambda>c.
     ebind (py_getitem j ''capture_progress'') (\<lambda>cp.
     Inr \<lparr>zone_position = zp, zone_type = ty, difficulty = d, captured = c,
          capture_progress = cp\<rparr>)))))"

definition get_difficulty_score :: "Zone \<Rightarrow> error + int option" where
  "get_difficulty_score z =
     dict_get [(1, 120 * 5), (2, 120 * 10), (3, 120 * 20), (4, 120 * 40)] (difficulty z)"

definition PlanetDetails_from_json :: "(string \<Rightarrow> int option) \<Rightarrow> json \<Rightarrow> error + PlanetDetails" where
  "PlanetDetails_from_json si j =
     ebind (ebind (py_getitem j ''zones'') py_iter) (\<lambda>zjs.
     ebind (emap Zone_from_json zjs) (\<lambda>zs.
     ebind (ebind (py_getitem j ''id'') (py_int si)) (\<lambda>i.
     ebind (ebind (py_getitem j ''state'') (\<lambda>st. py_getitem st ''name'')) (\<lambda>n.
     Inr \<lparr>pd_id = i, pd_name = n, zones = zs\<rparr>))))"

section \<open>Zone selector\<close>

text \<open>
  \<^verbatim>\<open>0.95\<close> and \<^verbatim>\<open>0.96\<close> in the program are floats. The multipliers times 8 are
  integers that are floats exactly, \<^verbatim>\<open>1.0 - capture_progress\<close> and the sum are float
  operations. The result is the exact value of the number returned.
\<close>

definition weight :: "PlanetZoneTuple \<Rightarrow> error + real" where
  "weight p =
     ebind (dict_get [(1, 2), (2, 4), (3, 8), (4, 100)] (difficulty (zone p))) (\<lambda>m.
     if truthy (captured (zone p)) then Inr 0
     else
       ebind (if difficulty (zone p) = JInt 3
              then py_ge (capture_progress (zone p)) (round_double 0.95)
              else Inr False) (\<lambda>high.
       if high then Inr 0
       else
         ebind (if difficulty (zone p) = JInt 2
                then py_ge (capture_progress (zone p)) (round_double 0.96)
                else Inr False) (\<lambda>medium.
         if medium then Inr 0
         else
           (case m of
              None \<Rightarrow> Inl TypeError
            | Some d \<Rightarrow>
                ebind (py_float (capture_progress (zone p))) (\<lambda>c.
                Inr (float_add (of_int (d * 8)) (float_sub 1 c)))))))"

text \<open>
  \<^verbatim>\<open>sorted(zones, key=methodcaller('weight'))[-1]\<close>: every key is computed first, the
  sort is stable and compares the keys, integers or floats, by their exact values, and
  the last element of an empty list is an \<^verbatim>\<open>IndexError\<close>.
\<close>

definition sorted_last :: "PlanetZoneTuple list \<Rightarrow> error + PlanetZoneTuple" where
  "sorted_last zs =
     ebind (emap weight zs) (\<lambda>ws.
       (case map snd (sort_key fst (zip ws zs)) of
          [] \<Rightarrow> Inl IndexError
        | s # ss \<Rightarrow> Inr (last (s # ss))))"

section \<open>Effects: remote calls, log lines and waiting\<close>

text \<open>
  The remote service and Python's string-to-integer conversion are the environment. The
  \<open>n\<close>-th remote call of a run receives \<open>reply env n\<close>. A \<open>world\<close> counts the calls made
  and records, in order, every call, log line and wait. A statement of the program is an
  \<open>io\<close>: it returns a value or raises, and changes the world. A log line is recorded with
  its fixed text only; the logging library never raises into the program.
\<close>

datatype request =
    GetPlanets int
  | GetPlanet int
  | GetPlayerInfo
  | LeaveGame int
  | JoinPlanet int
  | JoinZone json
  | ReportScore "int option"

datatype event =
    Info string
  | Warning string
  | Slept nat
  | Http request

datatype http_reply =
    Unreachable
  | NotJson
  | Payload json

record env =
  str_int :: "string \<Rightarrow> int option"
  reply :: "nat \<Rightarrow> http_reply"

record world =
  calls :: nat
  trace :: "event list"

type_synonym 'a io = "world \<Rightarrow> (error + 'a) \<times> world"

definition ioreturn :: "'a \<Rightarrow> 'a io" where
  "ioreturn v w = (Inr v, w)"

definition iobind :: "'a io \<Rightarrow> ('a \<Rightarrow> 'b io) \<Rightarrow> 'b io" where
  "iobind m f w = (case m w of (Inl e, w') \<Rightarrow> (Inl e, w') | (Inr v, w') \<Rightarrow> f v w')"

definition lift :: "error + 'a \<Rightarrow> 'a io" where
  "lift r w = (r, w)"

text \<open>\<^verbatim>\<open>try: m  except NoResponseError: h\<close>\<close>

definition except_NoResponseError :: "'a io \<Rightarrow> 'a io \<Rightarrow> 'a io" where
  "except_NoResponseError m h w =
     (case m w of (Inl NoResponseError, w') \<Rightarrow> h w' | r \<Rightarrow> r)"

text \<open>
  \<^verbatim>\<open>try: m  except Exception as e: h\<close>. Every \<open>error\<close> of this model is a subclass of
  \<^verbatim>\<open>Exception\<close>.
\<close>

definition except_Exception :: "'a io \<Rightarrow> 'a io \<Rightarrow> 'a io" where
  "except_Exception m h w = (case m w of (Inl e, w') \<Rightarrow> h w' | r \<Rightarrow> r)"

definition emit :: "event \<Rightarrow> unit io" where
  "emit ev w = (Inr (), w\<lparr>trace := trace w @ [ev]\<rparr>)"

definition info :: "string \<Rightarrow> unit io" where
  "info s = emit (Info s)"

definition warning :: "string \<Rightarrow> unit io" where
  "warning s = emit (Warning s)"

primrec sleep :: "nat \<Rightarrow> nat \<Rightarrow> unit io" where
  "sleep duration 0 = ioreturn ()"
| "sleep duration (Suc n) =
     iobind (info ''Sleeping...'') (\<lambda>_.
     iobind (emit (Slept duration)) (\<lambda>_. sleep duration n))"

text \<open>\<^verbatim>\<open>requests.get\<close> / \<^verbatim>\<open>requests.post\<close>, and \<^verbatim>\<open>.json()\<close> on what they return.\<close>

definition requests :: "env \<Rightarrow> request \<Rightarrow> http_reply io" where
  "requests env rq w =
     (case reply env (calls w) of
        Unreachable \<Rightarrow> Inl RequestException
      | r \<Rightarrow> Inr r,
      w\<lparr>calls := Suc (calls w), trace := trace w @ [Http rq]\<rparr>)"

fun response_json :: "http_reply \<Rightarrow> error + json" where
  "response_json (Payload j) = Inr j"
| "response_json _ = Inl JSONDecodeError"

section \<open>API gateway\<close>

definition get_planet_summaries :: "env \<Rightarrow> int \<Rightarrow> PlanetSummary list io" where
  "get_planet_summaries env active_only =
     iobind (requests env (GetPlanets active_only)) (\<lambda>r. lift (
       ebind (response_json r) (\<lambda>j.
       ebind (py_getitem j ''response'') (\<lambda>resp.
       if truthy resp then
         ebind (ebind (py_getitem resp ''planets'') py_iter)
           (emap (PlanetSummary_from_json (str_int env)))
       else Inl NoResponseError))))"

definition get_planet_details :: "env \<Rightarrow> int \<Rightarrow> PlanetDetails io" where
  "get_planet_details env planet_id =
     iobind (requests env (GetPlanet planet_id)) (\<lambda>r. lift (
       ebind (response_json r) (\<lambda>j.
       ebind (py_getitem j ''response'') (\<lambda>resp.
       if truthy resp then
         ebind (ebind (py_getitem resp ''planets'') py_first)
           (PlanetDetails_from_json (str_int env))
       else Inl NoResponseError))))"

definition get_player_info :: "env \<Rightarrow> PlayerInfo io" where
  "get_player_info env =
     iobind (requests env GetPlayerInfo) (\<lambda>r. lift (
       ebind (response_json r) (\<lambda>j.
       ebind (py_getitem j ''response'') (\<lambda>resp.
       if truthy resp then PlayerInfo_from_json (str_int env) resp
       else Inl NoResponseError))))"

definition leave_planet :: "env \<Rightarrow> int \<Rightarrow> unit io" where
  "leave_planet env planet_id = iobind (requests env (LeaveGame planet_id)) (\<lambda>_. ioreturn ())"

definition join_planet :: "env \<Rightarrow> int \<Rightarrow> unit io" where
  "join_planet env planet_id = iobind (requests env (JoinPlanet planet_id)) (\<lambda>_. ioreturn ())"

definition join_zone :: "env \<Rightarrow> json \<Rightarrow> json io" where
  "join_zone env zone_pos =
     iobind (requests env (JoinZone zone_pos)) (\<lambda>r. lift (response_json r))"

definition report_score :: "env \<Rightarrow> int option \<Rightarrow> bool io" where
  "report_score env sc =
     iobind (requests env (ReportScore sc)) (\<lambda>r. lift (
       ebind (response_json r) (\<lambda>j.
       ebind (py_getitem j ''response'') (\<lambda>resp.
       if truthy resp then Inr True else Inl NoResponseError))))"

section \<open>Control loop\<close>

fun get_zones :: "env \<Rightarrow> PlanetSummary list \<Rightarrow> PlanetZoneTuple list \<Rightarrow> PlanetZoneTuple list io" where
  "get_zones env [] acc = ioreturn acc"
| "get_zones env (planet_summary # rest) acc =
     iobind (get_planet_details env (ps_id planet_summary)) (\<lambda>pd.
       get_zones env rest (acc @ map (\<lambda>z. \<lparr>planet_details = pd, zone = z\<rparr>) (zones pd)))"

definition find_best_zone_position :: "env \<Rightarrow> PlanetZoneTuple io" where
  "find_best_zone_position env =
     iobind (get_planet_summaries env 1) (\<lambda>planet_summaries.
     iobind (get_zones env planet_summaries []) (\<lambda>zs. lift (sorted_last zs)))"

text \<open>
  Whether building the text of a zone or of a pairing raises; the text itself is not
  modelled. \<^verbatim>\<open>{True: .., False: ..}.get(captured)\<close> needs a hashable key, and the
  progress of a zone that is not captured is multiplied by the float 100.
\<close>

definition Zone_str :: "Zone \<Rightarrow> error + unit" where
  "Zone_str z =
     ebind (py_int_key (difficulty z)) (\<lambda>_.
     ebind (py_int_key (captured z)) (\<lambda>_.
     if truthy (captured z) then Inr ()
     else ebind (py_float (capture_progress z)) (\<lambda>_. Inr ())))"

definition PlanetZoneTuple_str :: "PlanetZoneTuple \<Rightarrow> error + unit" where
  "PlanetZoneTuple_str p = ebind (weight p) (\<lambda>_. Zone_str (zone p))"

definition relocate :: "env \<Rightarrow> PlayerInfo \<Rightarrow> PlanetZoneTuple \<Rightarrow> unit io" where
  "relocate env player_info planet_zone =
     (if \<not> py_is_int (active_planet player_info) (pd_id (planet_details planet_zone)) then
        iobind (if \<not> py_is_int (active_planet player_info) (- 1) then
                  iobind (info ''Leaving Planet...'') (\<lambda>_.
                  leave_planet env (active_planet player_info))
                else ioreturn ()) (\<lambda>_.
        iobind (info ''Joining Planet...'') (\<lambda>_.
        join_planet env (pd_id (planet_details planet_zone))))
      else ioreturn ())"

definition join_zone_step :: "env \<Rightarrow> PlanetZoneTuple \<Rightarrow> unit io" where
  "join_zone_step env planet_zone =
     except_NoResponseError
       (iobind (lift (PlanetZoneTuple_str planet_zone)) (\<lambda>_.
        iobind (info ''Joining Zone...'') (\<lambda>_.
        iobind (join_zone env (zone_position (zone planet_zone))) (\<lambda>_.
        info ''Joined!''))))
       (info ''Failed'')"

text \<open>
  One attempt of the report loop: \<open>True\<close> is the \<^verbatim>\<open>break\<close>, \<open>False\<close> the end of the
  \<^verbatim>\<open>except NoResponseError\<close> branch.
\<close>

definition report_attempt :: "env \<Rightarrow> PlanetZoneTuple \<Rightarrow> bool io" where
  "report_attempt env planet_zone =
     except_NoResponseError
       (iobind (info ''Reporting...'') (\<lambda>_.
        iobind (lift (get_difficulty_score (zone planet_zone))) (\<lambda>sc.
        iobind (report_score env sc) (\<lambda>_.
        iobind (info ''Reported!'') (\<lambda>_. ioreturn True)))))
       (iobind (info ''Failed'') (\<lambda>_. ioreturn False))"

function report_loop :: "env \<Rightarrow> PlanetZoneTuple \<Rightarrow> nat \<Rightarrow> unit io" where
  "report_loop env planet_zone retries w =
     (if retries < 6 then
        iobind (report_attempt env planet_zone) (\<lambda>reported.
          if reported then ioreturn ()
          else iobind (sleep 10 1) (\<lambda>_ w'. report_loop env planet_zone (retries + 1) w')) w
      else (Inr (), w))"
  by pat_completeness auto
termination
  by (relation "measure (\<lambda>(env, planet_zone, retries, w). 6 - retries)") auto

declare report_loop.simps [simp del]

definition report_and_leave :: "env \<Rightarrow> PlanetZoneTuple \<Rightarrow> PlayerInfo \<Rightarrow> unit io" where
  "report_and_leave env planet_zone player_info =
     iobind (report_loop env planet_zone 0) (\<lambda>_.
     iobind (info ''Leaving Planet...'') (\<lambda>_.
     leave_planet env (active_planet player_info)))"

text \<open>The body of the outer \<^verbatim>\<open>try\<close>: one game cycle.\<close>

definition cycle :: "env \<Rightarrow> unit io" where
  "cycle env =
     iobind (get_player_info env) (\<lambda>player_info.
     iobind (info ''PlayerInfo'') (\<lambda>_.
     iobind (find_best_zone_position env) (\<lambda>planet_zone.
     iobind (relocate env player_info planet_zone) (\<lambda>_.
     iobind (join_zone_step env planet_zone) (\<lambda>_.
     iobind (sleep 20 6) (\<lambda>_.
     report_and_leave env planet_zone player_info))))))"

text \<open>The handler of the outer \<^verbatim>\<open>try\<close>.\<close>

definition recover :: "env \<Rightarrow> unit io" where
  "recover env =
     iobind (warning ''An unknown error occurred'') (\<lambda>_.
     iobind (sleep 60 1) (\<lambda>_.
     except_Exception
       (iobind (get_player_info env) (\<lambda>player_info.
        leave_planet env (active_planet player_info)))
       (warning ''An unknown error occurred'')))"

definition iteration :: "env \<Rightarrow> unit io" where
  "iteration env = except_Exception (cycle env) (recover env)"

text \<open>
  \<^verbatim>\<open>while True\<close> never returns by itself; \<open>loop env n\<close> is its first \<open>n\<close> iterations,
  and stops early exactly when an iteration raises.
\<close>

primrec loop :: "env \<Rightarrow> nat \<Rightarrow> unit io" where
  "loop env 0 = ioreturn ()"
| "loop env (Suc n) = iobind (iteration env) (\<lambda>_. loop env n)"

definition run :: "env \<Rightarrow> nat \<Rightarrow> unit io" where
  "run env n = iobind (info ''Starting Steam Salians Bot v2.0'') (\<lambda>_. loop env n)"

section \<open>Vocabulary of the specification\<close>

text \<open>
  The program defines no decode exception of its own. The specification calls
  \<^verbatim>\<open>DecodeError\<close> what a decoder raises on a missing or malformed field; in the program
  these are Python's \<^verbatim>\<open>KeyError\<close>, \<^verbatim>\<open>TypeError\<close> and \<^verbatim>\<open>ValueError\<close>.
\<close>

definition is_DecodeError :: "error \<Rightarrow> bool" where
  "is_DecodeError e = (e = KeyError \<or> e = TypeError \<or> e = ValueError)"

text \<open>Field \<open>k\<close> of \<open>j\<close> is present and \<^verbatim>\<open>int\<close> accepts it.\<close>

definition coercible_field :: "(string \<Rightarrow> int option) \<Rightarrow> json \<Rightarrow> string \<Rightarrow> bool" where
  "coercible_field si j k =
     (case py_getitem j k of
        Inl _ \<Rightarrow> False
      | Inr v \<Rightarrow> (case py_int si v of Inl _ \<Rightarrow> False | Inr _ \<Rightarrow> True))"

text \<open>A remote call that reports a score.\<close>

fun is_report :: "event \<Rightarrow> bool" where
  "is_report (Http (ReportScore _)) = True"
| "is_report _ = False"

text \<open>
  A reply whose \<^verbatim>\<open>response\<close> envelope is present and empty, and one whose envelope is
  present and not empty.
\<close>

definition empty_envelope :: "http_reply \<Rightarrow> bool" where
  "empty_envelope r =
     (case r of
        Payload j \<Rightarrow> (case py_getitem j ''response'' of Inl _ \<Rightarrow> False | Inr v \<Rightarrow> \<not> truthy v)
      | _ \<Rightarrow> False)"

definition full_envelope :: "http_reply \<Rightarrow> bool" where
  "full_envelope r =
     (case r of
        Payload j \<Rightarrow> (case py_getitem j ''response'' of Inl _ \<Rightarrow> False | Inr v \<Rightarrow> truthy v)
      | _ \<Rightarrow> False)"

text \<open>What one failed attempt of the report loop leaves in the trace.\<close>

definition failed_attempt :: "int option \<Rightarrow> event list" where
  "failed_attempt sc =
     [Info ''Reporting...'', Http (ReportScore sc), Info ''Failed'', Info ''Sleeping...'', Slept 10]"

section \<open>Example data\<close>

definition zone_boss :: Zone where
  "zone_boss = \<lparr>zone_position = JInt 0, zone_type = JInt 1, difficulty = JInt 4,
     captured = JBool False, capture_progress = JFloat 0.1\<rparr>"

definition zone_low :: Zone where
  "zone_low = \<lparr>zone_position = JInt 1, zone_type = JInt 1, difficulty = JInt 1,
     captured = JBool False, capture_progress = JFloat 0.5\<rparr>"

definition zone_high_done :: Zone where
  "zone_high_done = \<lparr>zone_position = JInt 2, zone_type = JInt 1, difficulty = JInt 3,
     captured = JBool False, capture_progress = JFloat 0.95\<rparr>"

definition zone_captured :: Zone where
  "zone_captured = \<lparr>zone_position = JInt 3, zone_type = JInt 1, difficulty = JInt 2,
     captured = JBool True, capture_progress = JInt 0\<rparr>"

text \<open>A High zone whose progress, written just below 0.95, is the float 0.95.\<close>

definition zone_high_edge :: Zone where
  "zone_high_edge = \<lparr>zone_position = JInt 4, zone_type = JInt 1, difficulty = JInt 3,
     captured = JBool False, capture_progress = JFloat 0.949999999999999956\<rparr>"

text \<open>A Boss zone whose weight is the same float as that of \<open>zone_boss\<close>.\<close>

definition zone_boss_b :: Zone where
  "zone_boss_b = \<lparr>zone_position = JInt 5, zone_type = JInt 1, difficulty = JInt 4,
     captured = JBool False, capture_progress = JFloat 0.10000000000001\<rparr>"

text \<open>A zone of a difficulty outside the table, and one whose progress is a huge integer.\<close>

definition zone_unknown :: Zone where
  "zone_unknown = \<lparr>zone_position = JInt 6, zone_type = JInt 1, difficulty = JInt 7,
     captured = JBool False, capture_progress = JFloat 0.5\<rparr>"

definition zone_overflow :: Zone where
  "zone_overflow = \<lparr>zone_position = JInt 7, zone_type = JInt 1, difficulty = JInt 1,
     captured = JBool False, capture_progress = JInt (2 ^ 1100)\<rparr>"

definition planet_x :: PlanetDetails where
  "planet_x = \<lparr>pd_id = 5, pd_name = JStr ''X'', zones = [zone_boss, zone_low]\<rparr>"

definition pairing :: "Zone \<Rightarrow> PlanetZoneTuple" where
  "pairing z = \<lparr>planet_details = planet_x, zone = z\<rparr>"

text \<open>A service that answers every call with an empty \<^verbatim>\<open>response\<close> envelope.\<close>

definition env_empty :: env where
  "env_empty = \<lparr>str_int = (\<lambda>_. None), reply = (\<lambda>_. Payload (JObj [(''response'', JObj [])]))\<rparr>"

definition world0 :: world where
  "world0 = \<lparr>calls = 0, trace = []\<rparr>"

text \<open>A service with one planet, two zones, and a given player.\<close>

definition zone_json :: "Zone \<Rightarrow> json" where
  "zone_json z = JObj [(''zone_position'', zone_position z), (''type'', zone_type z),
     (''difficulty'', difficulty z), (''captured'', captured z),
     (''capture_progress'', capture_progress z)]"

definition ok_reply :: http_reply where
  "ok_reply = Payload (JObj [(''response'', JObj [(''new_score'', JStr ''4800'')])])"

definition planets_reply :: http_reply where
  "planets_reply = Payload (JObj [(''response'', JObj [(''planets'',
     JArr [JObj [(''id'', JInt 5), (''state'', JObj [(''name'', JStr ''X'')])]])])])"

definition planet_reply :: http_reply where
  "planet_reply = Payload (JObj [(''response'', JObj [(''planets'',
     JArr [JObj [(''id'', JInt 5), (''state'', JObj [(''name'', JStr ''X'')]),
                 (''zones'', JArr [zone_json zone_boss, zone_json zone_low])]])])])"

definition env_play :: "(string \<times> json) list \<Rightarrow> env" where
  "env_play player =
     \<lparr>str_int = (\<lambda>_. None),
      reply = (\<lambda>n. if n = 0 then Payload (JObj [(''response'', JObj player)])
                   else if n = 1 then planets_reply
                   else if n = 2 then planet_reply
                   else ok_reply)\<rparr>"

definition player_on_7 :: "(string \<times> json) list" where
  "player_on_7 = [(''active_planet'', JInt 7), (''level'', JInt 3), (''score'', JInt 4500),
     (''next_level_score'', JInt 6000)]"

definition player_nowhere :: "(string \<times> json) list" where
  "player_nowhere = [(''level'', JInt 3), (''score'', JInt 4500),
     (''next_level_score'', JInt 6000)]"

text \<open>A service that cannot be reached, and one whose first three replies are empty.\<close>

definition env_down :: env where
  "env_down = \<lparr>str_int = (\<lambda>_. None), reply = (\<lambda>_. Unreachable)\<rparr>"

definition env_flaky :: env where
  "env_flaky = \<lparr>str_int = (\<lambda>_. None),
     reply = (\<lambda>n. if n < 3 then Payload (JObj [(''response'', JObj [])]) else ok_reply)\<rparr>"

lemmas ex_defs = zone_boss_def zone_low_def zone_high_done_def zone_captured_def
  zone_high_edge_def zone_boss_b_def zone_unknown_def zone_overflow_def planet_x_def
  pairing_def

lemmas io_defs = ioreturn_def iobind_def lift_def except_NoResponseError_def
  except_Exception_def emit_def info_def warning_def requests_def

lemmas play_defs = zone_json_def ok_reply_def planets_reply_def planet_reply_def env_play_def
  player_on_7_def player_nowhere_def env_down_def env_flaky_def env_empty_def world0_def

lemmas gateway_defs = get_planet_summaries_def get_planet_details_def get_player_info_def
  leave_planet_def join_planet_def join_zone_def report_score_def

section \<open>Rounding to a float\<close>

lemma round_half_even_of_int: "round_half_even (of_int n) = n"
  by (simp add: round_half_even_def)

lemma round_half_even_error: "\<bar>of_int (round_half_even y) - y\<bar> \<le> 1 / 2"
  unfolding round_half_even_def Let_def by (auto; linarith)

lemma powr_powi: "2 powr (of_int e) = (2::real) powi e"
  by (simp add: powr_real_of_int power_int_def power_one_over inverse_eq_divide)

lemma floor_log2: 
  assumes "2 powi e \<le> \<bar>x\<bar>" "\<bar>x\<bar> < 2 powi (e + 1)"
  shows "\<lfloor>log 2 \<bar>x::real\<bar>\<rfloor> = e"
proof -
  have pos: "0 < \<bar>x\<bar>" using assms(1) by (smt (verit) zero_less_power_int)
  have "2 powr (of_int e) \<le> \<bar>x\<bar> \<and> \<bar>x\<bar> < 2 powr (of_int (e + 1))"
    using assms by (simp only: powr_powi)
  then show ?thesis using floor_log_eq_powr_iff[OF pos, of 2 e] by simp
qed

lemma floor_log2_less:
  assumes "x \<noteq> 0" "\<bar>x\<bar> < 2 powi n"
  shows "\<lfloor>log 2 \<bar>x::real\<bar>\<rfloor> < n"
proof -
  have "\<bar>x\<bar> < 2 powr (of_int n)" using assms by (simp only: powr_powi)
  then have "log 2 \<bar>x\<bar> < of_int n" using assms(1) by (simp add: log_less_iff)
  then show ?thesis by (simp add: floor_less_iff)
qed

lemma round_double_eval:
  assumes "2 powi e \<le> \<bar>x\<bar>" "\<bar>x\<bar> < 2 powi (e + 1)" "- 1022 \<le> e"
  shows "round_double x = of_int (round_half_even (x / 2 powi (e - 52))) * 2 powi (e - 52)"
proof -
  have "x \<noteq> 0" using assms(1) by (smt (verit) zero_less_power_int)
  moreover have "ulp_exp x = e - 52" using floor_log2[OF assms(1,2)] assms(3) by (simp add: ulp_exp_def)
  ultimately show ?thesis by (simp add: round_double_def)
qed

lemma ulp_exp_le:
  assumes "x \<noteq> 0" "\<bar>x\<bar> < 2 powi n" "- 1021 \<le> n"
  shows "ulp_exp x \<le> n - 53"
  using floor_log2_less[OF assms(1,2)] assms(3) by (simp add: ulp_exp_def)

lemma round_double_error:
  assumes "x \<noteq> 0"
  shows "\<bar>round_double x - x\<bar> \<le> 2 powi ulp_exp x / 2"
proof -
  let ?u = "2 powi ulp_exp x :: real"
  have u: "0 < ?u" by (simp add: zero_less_power_int)
  have "\<bar>of_int (round_half_even (x / ?u)) - x / ?u\<bar> \<le> 1 / 2" by (rule round_half_even_error)
  then have "\<bar>of_int (round_half_even (x / ?u)) - x / ?u\<bar> * ?u \<le> 1 / 2 * ?u"
    using u by (simp add: mult_right_mono)
  moreover have "\<bar>of_int (round_half_even (x / ?u)) - x / ?u\<bar> * ?u =
      \<bar>of_int (round_half_even (x / ?u)) * ?u - x\<bar>"
  proof -
    have "\<bar>of_int (round_half_even (x / ?u)) - x / ?u\<bar> * ?u =
        \<bar>(of_int (round_half_even (x / ?u)) - x / ?u) * ?u\<bar>"
      using u by (simp add: abs_mult)
    also have "(of_int (round_half_even (x / ?u)) - x / ?u) * ?u =
        of_int (round_half_even (x / ?u)) * ?u - x"
      using u by (simp add: left_diff_distrib)
    finally show ?thesis .
  qed
  ultimately show ?thesis using assms by (simp add: round_double_def)
qed

lemma round_double_near:
  assumes "\<bar>x\<bar> < 2 powi n" "- 1021 \<le> n"
  shows "\<bar>round_double x - x\<bar> \<le> 2 powi (n - 54)"
proof (cases "x = 0")
  case True
  then show ?thesis by (simp add: round_double_def)
next
  case False
  have "ulp_exp x \<le> n - 53" by (rule ulp_exp_le[OF False assms])
  then have "(2::real) powi ulp_exp x \<le> 2 powi (n - 53)" by (simp add: power_int_increasing)
  moreover have "(2::real) powi (n - 53) / 2 = 2 powi (n - 54)"
    by (simp add: power_int_diff)
  ultimately show ?thesis using round_double_error[OF False] by linarith
qed

lemma round_double_exact:
  assumes "\<bar>k\<bar> < 2 ^ 53" "- 1074 \<le> q"
  shows "round_double (of_int k * 2 powi q) = of_int k * 2 powi q"
proof (cases "k = 0")
  case True
  then show ?thesis by (simp add: round_double_def)
next
  case False
  let ?x = "of_int k * 2 powi q :: real"
  have x0: "?x \<noteq> 0" using False by simp
  have "\<bar>?x\<bar> = of_int \<bar>k\<bar> * 2 powi q" by (simp add: abs_mult)
  also have "\<dots> < 2 ^ 53 * 2 powi q"
  proof -
    have "(of_int \<bar>k\<bar> :: real) < 2 ^ 53" using assms(1) by (metis of_int_less_numeral_power_cancel_iff)
    then show ?thesis by (simp add: zero_less_power_int)
  qed
  also have "\<dots> = 2 powi (q + 53)" by (simp add: power_int_add)
  finally have "\<lfloor>log 2 \<bar>?x\<bar>\<rfloor> < q + 53" using floor_log2_less[OF x0] by blast
  then have u: "ulp_exp ?x \<le> q" using assms(2) by (simp add: ulp_exp_def)
  define d where "d = nat (q - ulp_exp ?x)"
  have q: "q = ulp_exp ?x + int d" using u by (simp add: d_def)
  define U where "U = (2::real) powi ulp_exp ?x"
  have U0: "U \<noteq> 0" by (simp add: U_def)
  have pq: "(2::real) powi q = U * 2 ^ d"
    unfolding U_def by (subst q) (simp add: power_int_add)
  have xe: "?x = of_int (k * 2 ^ d) * U" by (simp add: pq)
  have "of_int (k * 2 ^ d) * U / U = (of_int (k * 2 ^ d) :: real)" using U0 by simp
  then have "?x / U = of_int (k * 2 ^ d)" by (simp only: xe)
  then have "round_half_even (?x / U) = k * 2 ^ d"
    by (simp only: round_half_even_of_int)
  moreover have "round_double ?x = of_int (round_half_even (?x / U)) * U"
    using x0 by (simp add: round_double_def U_def)
  ultimately have "round_double ?x = of_int (k * 2 ^ d) * U" by simp
  also have "\<dots> = ?x" by (rule xe[symmetric])
  finally show ?thesis .
qed

text \<open>The floats met in the examples.\<close>

lemma round_double_int: "\<bar>k\<bar> < 2 ^ 53 \<Longrightarrow> round_double (of_int k) = of_int k"
  using round_double_exact[of k 0] by simp

lemma round_double_half: "round_double (1 / 2) = 1 / 2"
  using round_double_exact[of 1 "- 1"] by simp

lemma float_sub_half: "float_sub 1 (1 / 2) = 1 / 2"
  by (simp add: float_sub_def round_double_half)

lemma float_add_low: "float_add 16 (1 / 2) = 33 / 2"
  using round_double_exact[of 33 "- 1"] by (simp add: float_add_def)

lemma round_double_tenth: "round_double (1 / 10) = 3602879701896397 / 36028797018963968"
  by (subst round_double_eval[of "- 4"]) (simp_all add: round_half_even_def)

lemma round_double_tenth_b:
  "round_double (10000000000001 / 100000000000000) = 3602879701896757 / 36028797018963968"
  by (subst round_double_eval[of "- 4"]) (simp_all add: round_half_even_def)

lemma float_sub_tenth:
  "float_sub 1 (3602879701896397 / 36028797018963968) = 8106479329266893 / 9007199254740992"
  unfolding float_sub_def
  by (subst round_double_eval[of "- 1"]) (simp_all add: round_half_even_def)

lemma float_sub_tenth_b:
  "float_sub 1 (3602879701896757 / 36028797018963968) = 8106479329266803 / 9007199254740992"
  unfolding float_sub_def
  by (subst round_double_eval[of "- 1"]) (simp_all add: round_half_even_def)

lemma float_add_boss:
  "float_add 800 (8106479329266893 / 9007199254740992) = 7044790901486387 / 8796093022208"
  unfolding float_add_def
  by (subst round_double_eval[of 9]) (simp_all add: round_half_even_def)

lemma float_add_boss_b:
  "float_add 800 (8106479329266803 / 9007199254740992) = 7044790901486387 / 8796093022208"
  unfolding float_add_def
  by (subst round_double_eval[of 9]) (simp_all add: round_half_even_def)

lemma round_double_95: "round_double (19 / 20) = 4278419646001971 / 4503599627370496"
  by (subst round_double_eval[of "- 1"]) (simp_all add: round_half_even_def)

lemma round_double_95_edge:
  "round_double (237499999999999989 / 250000000000000000) = 4278419646001971 / 4503599627370496"
  by (subst round_double_eval[of "- 1"]) (simp_all add: round_half_even_def)

lemma float_overflow_big: "float_overflow (2 ^ 1100)"
  using round_double_exact[of 1 1100] by (simp add: float_overflow_def)

lemmas float_evals = round_double_half float_sub_half float_add_low round_double_tenth
  round_double_tenth_b float_sub_tenth float_sub_tenth_b float_add_boss float_add_boss_b
  round_double_95 round_double_95_edge

lemma weight_boss: "weight (pairing zone_boss) = Inr (7044790901486387 / 8796093022208)"
  by (simp add: weight_def dict_get_def ebind_def py_ge_def ex_defs float_evals)


lemma weight_low: "weight (pairing zone_low) = Inr (33 / 2)"
  by (simp add: weight_def dict_get_def ebind_def py_ge_def ex_defs float_evals)

lemma weight_edge: "weight (pairing zone_high_edge) = Inr 0"
  by (simp add: weight_def dict_get_def ebind_def py_ge_def ex_defs float_evals)

lemma weight_high_done: "weight (pairing zone_high_done) = Inr 0"
  by (simp add: weight_def dict_get_def ebind_def py_ge_def ex_defs)


lemma weight_overflow: "weight (pairing zone_overflow) = Inl OverflowError"
  using float_overflow_big
  by (simp add: weight_def dict_get_def ebind_def py_ge_def ex_defs)

section \<open>The weight of a pairing\<close>

text \<open>
  Claim C1, as stated, gives every weight by comparisons with 0.95 and 0.96 and by the
  sum \<open>m * 8 + (1 - capture_progress)\<close>. The program computes with floats. An uncaptured
  Low zone whose progress is the integer \<open>2 ^ 1100\<close> has no weight: the integer does not
  fit a float and the subtraction raises \<^verbatim>\<open>OverflowError\<close>. A High zone whose progress
  is written 0.949999999999999956 has a progress below 0.95 and the weight 0, because its
  progress is the float 0.95. The weight of a Boss zone of progress 0.1 is a float, and
  differs from \<open>100 * 8 + (1 - c)\<close> for the value \<open>c\<close> of its progress.
\<close>

theorem weight_is_float_arithmetic:
  "weight (pairing zone_overflow) = Inl OverflowError \<and>
   (py_num (capture_progress zone_high_edge) = Some (4278419646001971 / 4503599627370496) \<and>
    (4278419646001971 / 4503599627370496 :: real) < 0.95 \<and>
    weight (pairing zone_high_edge) = Inr 0) \<and>
   (py_num (capture_progress zone_boss) = Some (3602879701896397 / 36028797018963968) \<and>
    weight (pairing zone_boss) \<noteq>
      Inr (100 * 8 + (1 - 3602879701896397 / 36028797018963968)))"
proof -
  have a: "weight (pairing zone_overflow) = Inl OverflowError" by (rule weight_overflow)
  have b: "py_num (capture_progress zone_high_edge) =
      Some (4278419646001971 / 4503599627370496)"
    by (simp add: zone_high_edge_def float_evals)
  have c: "(4278419646001971 / 4503599627370496 :: real) < 0.95" by simp
  have d: "weight (pairing zone_high_edge) = Inr 0" by (rule weight_edge)
  have e: "py_num (capture_progress zone_boss) = Some (3602879701896397 / 36028797018963968)"
    by (simp add: zone_boss_def float_evals)
  have f: "weight (pairing zone_boss) \<noteq>
      Inr (100 * 8 + (1 - 3602879701896397 / 36028797018963968))"
    by (simp add: weight_boss)
  from a b c d e f show ?thesis by blast
qed

text \<open>
  Claim C1, amended. For a pairing whose zone has an integer difficulty \<open>d\<close>: the weight
  is 0 when the zone is captured, whatever its difficulty and progress. When the zone is
  not captured and its progress is a number of value \<open>x\<close>, the weight is 0 when \<open>d\<close> is
  High (3) and \<open>x\<close> is at least the float 0.95, and 0 when \<open>d\<close> is Medium (2) and \<open>x\<close> is
  at least the float 0.96. In every other case, for \<open>d\<close> among 1 to 4 and a progress
  that becomes the float \<open>c\<close>, it is the float sum of \<open>m * 8\<close> and of the float
  difference \<open>1.0 - c\<close>, with \<open>m\<close> the multiplier 2, 4, 8, 100 of Low, Medium, High, Boss.
\<close>

theorem weight_spec:
  "(difficulty (zone p) = JInt d \<and> truthy (captured (zone p)) \<longrightarrow> weight p = Inr 0) \<and>
   (difficulty (zone p) = JInt d \<and> \<not> truthy (captured (zone p)) \<and>
      py_num (capture_progress (zone p)) = Some x \<and>
      (d = 3 \<and> round_double 0.95 \<le> x \<or> d = 2 \<and> round_double 0.96 \<le> x) \<longrightarrow>
      weight p = Inr 0) \<and>
   (difficulty (zone p) = JInt d \<and> d \<in> {1, 2, 3, 4} \<and> \<not> truthy (captured (zone p)) \<and>
      py_num (capture_progress (zone p)) = Some x \<and>
      py_float (capture_progress (zone p)) = Inr c \<and>
      \<not> (d = 3 \<and> round_double 0.95 \<le> x) \<and> \<not> (d = 2 \<and> round_double 0.96 \<le> x) \<longrightarrow>
      weight p =
        Inr (float_add
               (of_int (if d = 1 then 2 else if d = 2 then 4 else if d = 3 then 8 else 100) * 8)
               (float_sub 1 c)))"
  by (auto simp: weight_def dict_get_def ebind_def py_ge_def)

theorem weight_spec_witness:
  "weight (pairing zone_captured) = Inr 0 \<and> weight (pairing zone_high_edge) = Inr 0 \<and>
   weight (pairing zone_boss) = Inr (7044790901486387 / 8796093022208)"
  using weight_spec[of "pairing zone_captured" 2]
    weight_spec[of "pairing zone_high_edge" 3 "4278419646001971 / 4503599627370496"]
    weight_spec[of "pairing zone_boss" 4 "3602879701896397 / 36028797018963968"
      "3602879701896397 / 36028797018963968"]
  by (simp add: ex_defs float_evals)

section \<open>Boss zones\<close>

lemma round_double_within_1:
  assumes "\<bar>x\<bar> < 1024"
  shows "\<bar>round_double x - x\<bar> \<le> 1"
proof -
  have "\<bar>x\<bar> < 2 powi 10" using assms by simp
  then have "\<bar>round_double x - x\<bar> \<le> 2 powi (10 - 54)" by (rule round_double_near) simp
  also have "(2::real) powi (10 - 54) \<le> 1" by simp
  finally show ?thesis .
qed

lemma py_float_unit:
  assumes "py_num v = Some x" "0 \<le> x" "x \<le> 1"
  shows "py_float v = Inr x"
proof (cases v)
  case (JInt i)
  with assms have i: "0 \<le> i" "i \<le> 1" by auto
  then have "\<bar>i\<bar> < 2 ^ 53" by simp
  then have r: "round_double (of_int i) = of_int i" by (rule round_double_int)
  have "\<not> float_overflow (of_int i)"
  proof -
    have "\<bar>real_of_int i\<bar> \<le> 1" using i by simp
    also have "(1::real) < 2 ^ 1024" by simp
    finally show ?thesis by (simp add: float_overflow_def r)
  qed
  with r JInt assms show ?thesis by simp
qed (use assms in auto)

lemma unit_term:
  assumes "0 \<le> x" "x \<le> 1"
  shows "- 1 \<le> float_sub 1 x \<and> float_sub 1 x \<le> 2"
proof -
  have "\<bar>1 - x\<bar> < 1024" using assms by simp
  from round_double_within_1[OF this] assms show ?thesis
    by (simp add: float_sub_def) linarith
qed

lemma weight_sum_bounds:
  assumes "0 \<le> m" "m \<le> 800" "- 1 \<le> t" "t \<le> 2"
  shows "m - 2 \<le> float_add m t \<and> float_add m t \<le> m + 3"
proof -
  have "\<bar>m + t\<bar> < 1024" using assms by simp
  from round_double_within_1[OF this] assms show ?thesis
    by (simp add: float_add_def) linarith
qed

lemma other_weight_le:
  assumes "difficulty (zone p) = JInt d" "d \<in> {1, 2, 3}"
    "py_num (capture_progress (zone p)) = Some y" "0 \<le> y" "y \<le> 1"
    "weight p = Inr wp"
  shows "wp \<le> 67"
proof -
  have f: "py_float (capture_progress (zone p)) = Inr y" by (rule py_float_unit[OF assms(3-5)])
  have t: "- 1 \<le> float_sub 1 y \<and> float_sub 1 y \<le> 2" by (rule unit_term[OF assms(4,5)])
  have b: "float_add 16 (float_sub 1 y) \<le> 19" "float_add 32 (float_sub 1 y) \<le> 35"
    "float_add 64 (float_sub 1 y) \<le> 67"
    using weight_sum_bounds[of 16 "float_sub 1 y"] weight_sum_bounds[of 32 "float_sub 1 y"]
      weight_sum_bounds[of 64 "float_sub 1 y"] t by simp_all
  from assms(1,2,3,6) f b show ?thesis
    by (auto simp: weight_def dict_get_def ebind_def py_ge_def split: if_splits)
qed

lemma boss_weight_ge:
  assumes "difficulty (zone b) = JInt 4" "\<not> truthy (captured (zone b))"
    "py_num (capture_progress (zone b)) = Some x" "0 \<le> x" "x \<le> 1"
  shows "\<exists>wb. weight b = Inr wb \<and> 798 \<le> wb"
proof -
  have f: "py_float (capture_progress (zone b)) = Inr x" by (rule py_float_unit[OF assms(3-5)])
  have t: "- 1 \<le> float_sub 1 x \<and> float_sub 1 x \<le> 2" by (rule unit_term[OF assms(4,5)])
  have "798 \<le> float_add 800 (float_sub 1 x)"
    using weight_sum_bounds[of 800 "float_sub 1 x"] t by simp
  with assms(1,2) f show ?thesis
    by (simp add: weight_def dict_get_def ebind_def)
qed

text \<open>
  Claim C8. An uncaptured Boss zone with progress in \<open>[0, 1]\<close> weighs strictly more than
  any Low, Medium or High zone with progress in \<open>[0, 1]\<close> whose weight is not zero.
\<close>

theorem boss_outranks:
  assumes "difficulty (zone b) = JInt 4" "\<not> truthy (captured (zone b))"
    "py_num (capture_progress (zone b)) = Some x" "0 \<le> x" "x \<le> 1"
    "difficulty (zone p) = JInt d" "d \<in> {1, 2, 3}"
    "py_num (capture_progress (zone p)) = Some y" "0 \<le> y" "y \<le> 1"
    "weight p = Inr wp" "wp \<noteq> 0"
  shows "\<exists>wb. weight b = Inr wb \<and> wp < wb"
proof -
  from boss_weight_ge[OF assms(1-5)] obtain wb where wb: "weight b = Inr wb" "798 \<le> wb"
    by blast
  have "wp \<le> 67" by (rule other_weight_le[OF assms(6-11)])
  with wb show ?thesis by (intro exI[of _ wb]) simp
qed

theorem boss_outranks_witness:
  "\<exists>wb. weight (pairing zone_boss) = Inr wb \<and> 16.5 < wb"
  using boss_outranks[of "pairing zone_boss" "3602879701896397 / 36028797018963968"
      "pairing zone_low" 1 "0.5" "16.5"] weight_low
  by (simp add: ex_defs float_evals)

section \<open>Difficulties outside the table\<close>

text \<open>
  Claim C10, as stated, makes the weight undefined for every difficulty outside 1 to 4
  and a number for every difficulty among 1 to 4. A captured zone of difficulty 5 has
  weight 0: the captured test comes before the multiplier is used. An uncaptured zone of
  difficulty 1 whose progress is the integer \<open>2 ^ 1100\<close> has no weight: the integer does
  not fit a float and \<^verbatim>\<open>1.0 - capture_progress\<close> raises \<^verbatim>\<open>OverflowError\<close>.
\<close>

theorem weight_defined_outside_table:
  "weight \<lparr>planet_details = \<lparr>pd_id = 5, pd_name = JStr ''X'', zones = []\<rparr>,
           zone = \<lparr>zone_position = JInt 0, zone_type = JInt 1, difficulty = JInt 5,
                   captured = JBool True, capture_progress = JFloat 0.3\<rparr>\<rparr> = Inr 0 \<and>
   weight \<lparr>planet_details = \<lparr>pd_id = 5, pd_name = JStr ''X'', zones = []\<rparr>,
           zone = \<lparr>zone_position = JInt 7, zone_type = JInt 1, difficulty = JInt 1,
                   captured = JBool False, capture_progress = JInt (2 ^ 1100)\<rparr>\<rparr> =
     Inl OverflowError"
  using float_overflow_big
  by (simp add: weight_def dict_get_def ebind_def)

text \<open>
  Claim C10, amended. For an integer difficulty among 1 to 4 both table lookups yield a
  number, \<open>get_difficulty_score\<close> returns it, and \<open>weight\<close> returns a number or raises
  the error with which the progress fails to become a float: it never fails for want of
  a multiplier. For an integer difficulty outside 1 to 4 both lookups yield no value,
  \<open>get_difficulty_score\<close> returns \<^verbatim>\<open>None\<close>, and \<open>weight\<close> raises a \<^verbatim>\<open>TypeError\<close> unless
  the zone is captured, in which case it is 0.
\<close>

theorem difficulty_precondition:
  "(difficulty (zone p) = JInt d \<and> d \<in> {1, 2, 3, 4} \<longrightarrow>
      (\<exists>m. dict_get [(1, 2), (2, 4), (3, 8), (4, 100 :: int)] (difficulty (zone p)) = Inr (Some m)) \<and>
      (\<exists>n. get_difficulty_score (zone p) = Inr (Some n)) \<and>
      ((\<exists>r. weight p = Inr r) \<or>
       (\<exists>e. py_float (capture_progress (zone p)) = Inl e \<and> weight p = Inl e))) \<and>
   (difficulty (zone p) = JInt d \<and> d \<notin> {1, 2, 3, 4} \<longrightarrow>
      dict_get [(1, 2), (2, 4), (3, 8), (4, 100 :: int)] (difficulty (zone p)) = Inr None \<and>
      get_difficulty_score (zone p) = Inr None \<and>
      weight p = (if truthy (captured (zone p)) then Inr 0 else Inl TypeError))"
proof (intro conjI impI)
  assume a: "difficulty (zone p) = JInt d \<and> d \<in> {1, 2, 3, 4}"
  then show "\<exists>m. dict_get [(1, 2), (2, 4), (3, 8), (4, 100 :: int)] (difficulty (zone p)) = Inr (Some m)"
    by (auto simp: dict_get_def ebind_def)
  from a show "\<exists>n. get_difficulty_score (zone p) = Inr (Some n)"
    by (auto simp: get_difficulty_score_def dict_get_def ebind_def)
  from a show "(\<exists>r. weight p = Inr r) \<or>
       (\<exists>e. py_float (capture_progress (zone p)) = Inl e \<and> weight p = Inl e)"
    by (cases "capture_progress (zone p)")
       (auto simp: weight_def dict_get_def ebind_def py_ge_def)
next
  assume a: "difficulty (zone p) = JInt d \<and> d \<notin> {1, 2, 3, 4}"
  then show "dict_get [(1, 2), (2, 4), (3, 8), (4, 100 :: int)] (difficulty (zone p)) = Inr None"
    by (auto simp: dict_get_def ebind_def)
  from a show "get_difficulty_score (zone p) = Inr None"
    by (auto simp: get_difficulty_score_def dict_get_def ebind_def)
  from a show "weight p = (if truthy (captured (zone p)) then Inr 0 else Inl TypeError)"
    by (auto simp: weight_def dict_get_def ebind_def py_ge_def)
qed

theorem difficulty_precondition_witness:
  "((\<exists>m. dict_get [(1, 2), (2, 4), (3, 8), (4, 100 :: int)] (difficulty (zone (pairing zone_low))) = Inr (Some m)) \<and>
    (\<exists>n. get_difficulty_score (zone (pairing zone_low)) = Inr (Some n)) \<and>
    ((\<exists>r. weight (pairing zone_low) = Inr r) \<or>
     (\<exists>e. py_float (capture_progress (zone (pairing zone_low))) = Inl e \<and>
          weight (pairing zone_low) = Inl e))) \<and>
   weight (pairing zone_unknown) = Inl TypeError"
  using difficulty_precondition[of "pairing zone_low" 1]
    difficulty_precondition[of "pairing zone_unknown" 7]
  by (simp add: ex_defs)

section \<open>Selecting the best pairing\<close>









section \<open>Decoding the player\<close>

lemma py_getitem_err: "py_getitem j k = Inl e \<Longrightarrow> is_DecodeError e"
  by (cases j) (auto simp: is_DecodeError_def split: option.splits)

lemma py_int_err: "py_int si v = Inl e \<Longrightarrow> is_DecodeError e"
  by (cases v) (auto simp: is_DecodeError_def split: option.splits)

lemma py_contains_err: "py_contains k j = Inl e \<Longrightarrow> is_DecodeError e"
  by (cases j) (auto simp: is_DecodeError_def)

lemma field_err: "ebind (py_getitem j k) (py_int si) = Inl e \<Longrightarrow> is_DecodeError e"
  by (auto simp: ebind_def split: sum.splits dest: py_getitem_err py_int_err)

lemma field_ok: "ebind (py_getitem j k) (py_int si) = Inr i \<Longrightarrow> coercible_field si j k"
  by (auto simp: ebind_def coercible_field_def split: sum.splits)

lemma PlayerInfo_from_json_err: "PlayerInfo_from_json si j = Inl e \<Longrightarrow> is_DecodeError e"
  unfolding PlayerInfo_from_json_def
  by (auto simp: ebind_def split: sum.splits if_splits dest: py_getitem_err py_int_err py_contains_err)

lemma PlayerInfo_from_json_ok:
  "PlayerInfo_from_json si j = Inr p \<Longrightarrow>
   coercible_field si j ''level'' \<and> coercible_field si j ''score'' \<and> coercible_field si j ''next_level_score''"
  unfolding PlayerInfo_from_json_def
  by (auto simp: ebind_def coercible_field_def split: sum.splits if_splits)

text \<open>
  Claim C6. A dictionary without \<^verbatim>\<open>active_planet\<close> whose \<^verbatim>\<open>level\<close>, \<^verbatim>\<open>score\<close> and
  \<^verbatim>\<open>next_level_score\<close> are present and accepted by \<^verbatim>\<open>int\<close> decodes to a player with
  \<open>active_planet = -1\<close>. A payload in which one of these three fields is absent or not
  accepted by \<^verbatim>\<open>int\<close> fails to decode, with a decode error.
\<close>

theorem PlayerInfo_decode:
  "(map_of kvs ''active_planet'' = None \<and>
    map_of kvs ''level'' = Some vl \<and> py_int si vl = Inr l \<and>
    map_of kvs ''score'' = Some vs \<and> py_int si vs = Inr s \<and>
    map_of kvs ''next_level_score'' = Some vn \<and> py_int si vn = Inr n \<longrightarrow>
      PlayerInfo_from_json si (JObj kvs) =
        Inr \<lparr>active_planet = - 1, level = l, score = s, next_level_score = n\<rparr>) \<and>
   (\<not> coercible_field si j ''level'' \<or> \<not> coercible_field si j ''score'' \<or>
    \<not> coercible_field si j ''next_level_score'' \<longrightarrow>
      (\<exists>e. PlayerInfo_from_json si j = Inl e \<and> is_DecodeError e))"
proof (intro conjI impI)
  assume "map_of kvs ''active_planet'' = None \<and>
    map_of kvs ''level'' = Some vl \<and> py_int si vl = Inr l \<and>
    map_of kvs ''score'' = Some vs \<and> py_int si vs = Inr s \<and>
    map_of kvs ''next_level_score'' = Some vn \<and> py_int si vn = Inr n"
  then show "PlayerInfo_from_json si (JObj kvs) =
        Inr \<lparr>active_planet = - 1, level = l, score = s, next_level_score = n\<rparr>"
    by (simp add: PlayerInfo_from_json_def ebind_def)
next
  assume a: "\<not> coercible_field si j ''level'' \<or> \<not> coercible_field si j ''score'' \<or>
    \<not> coercible_field si j ''next_level_score''"
  show "\<exists>e. PlayerInfo_from_json si j = Inl e \<and> is_DecodeError e"
  proof (cases "PlayerInfo_from_json si j")
    case (Inl e)
    then show ?thesis using PlayerInfo_from_json_err by blast
  next
    case (Inr p)
    from PlayerInfo_from_json_ok[OF this] a show ?thesis by blast
  qed
qed

theorem PlayerInfo_decode_witness:
  "PlayerInfo_from_json (\<lambda>_. None) (JObj [(''level'', JInt 3), (''score'', JInt 4500), (''next_level_score'', JInt 6000)])
     = Inr \<lparr>active_planet = - 1, level = 3, score = 4500, next_level_score = 6000\<rparr> \<and>
   (\<exists>e. PlayerInfo_from_json (\<lambda>_. None) (JObj [(''level'', JInt 3), (''score'', JStr ''many'')]) = Inl e \<and> is_DecodeError e)"
  using PlayerInfo_decode[of "[(''level'', JInt 3), (''score'', JInt 4500), (''next_level_score'', JInt 6000)]"
      "JInt 3" "\<lambda>_. None" 3 "JInt 4500" 4500 "JInt 6000" 6000
      "JObj [(''level'', JInt 3), (''score'', JStr ''many'')]"]
  by (simp add: coercible_field_def)

text \<open>
  Claim C7. With \<open>next_level_score = 0\<close> the division in \<open>completion\<close> is reached with a
  zero divisor and raises \<^verbatim>\<open>ZeroDivisionError\<close>: nothing guards it and no 0% is reported.
\<close>

theorem completion_zero:
  "completion \<lparr>active_planet = - 1, level = 1, score = 0, next_level_score = 0\<rparr> = Inl ZeroDivisionError"
  by (simp add: completion_def int_truediv_def ebind_def)

lemma completion_75:
  "completion \<lparr>active_planet = - 1, level = 1, score = 4500, next_level_score = 6000\<rparr> = Inr 75"
proof -
  have q: "round_double (3 / 4) = 3 / 4" using round_double_exact[of 3 "- 2"] by simp
  have h: "round_double 75 = 75" using round_double_int[of 75] by simp
  have "\<not> float_overflow (3 / 4)" by (simp add: float_overflow_def q)
  then show ?thesis by (simp add: completion_def int_truediv_def ebind_def float_mul_def q h)
qed

section \<open>The response envelope\<close>

text \<open>
  Claim C3. On a reply whose \<^verbatim>\<open>response\<close> envelope is empty, \<open>join_zone\<close> returns the
  decoded reply and raises nothing, so the step that joins a zone logs success; on the
  same reply \<open>report_score\<close> raises \<^verbatim>\<open>NoResponseError\<close>.
\<close>

theorem join_zone_empty_envelope:
  "join_zone env_empty (JInt 0) world0 =
     (Inr (JObj [(''response'', JObj [])]), \<lparr>calls = 1, trace = [Http (JoinZone (JInt 0))]\<rparr>) \<and>
   join_zone_step env_empty (pairing zone_boss) world0 =
     (Inr (), \<lparr>calls = 1,
        trace = [Info ''Joining Zone...'', Http (JoinZone (JInt 0)), Info ''Joined!'']\<rparr>) \<and>
   report_score env_empty (Some 4800) world0 =
     (Inl NoResponseError, \<lparr>calls = 1, trace = [Http (ReportScore (Some 4800))]\<rparr>)"
  by (simp add: join_zone_def join_zone_step_def report_score_def env_empty_def world0_def
      io_defs ebind_def PlanetZoneTuple_str_def Zone_str_def weight_def dict_get_def py_ge_def
      ex_defs float_evals)

section \<open>Reporting the score\<close>

lemma sleep_once: "sleep d 1 w = (Inr (), w\<lparr>trace := trace w @ [Info ''Sleeping...'', Slept d]\<rparr>)"
  by (simp add: io_defs)

lemma report_attempt_fail:
  assumes "get_difficulty_score (zone pz) = Inr sc" "empty_envelope (reply env (calls w))"
  shows "report_attempt env pz w =
    (Inr False, w\<lparr>calls := Suc (calls w),
       trace := trace w @ [Info ''Reporting...'', Http (ReportScore sc), Info ''Failed'']\<rparr>)"
  using assms
  by (auto simp: report_attempt_def report_score_def empty_envelope_def io_defs ebind_def
      split: http_reply.splits sum.splits)

lemma report_attempt_ok:
  assumes "get_difficulty_score (zone pz) = Inr sc" "full_envelope (reply env (calls w))"
  shows "report_attempt env pz w =
    (Inr True, w\<lparr>calls := Suc (calls w),
       trace := trace w @ [Info ''Reporting...'', Http (ReportScore sc), Info ''Reported!'']\<rparr>)"
  using assms
  by (auto simp: report_attempt_def report_score_def full_envelope_def io_defs ebind_def
      split: http_reply.splits sum.splits)

lemma report_loop_fail_step:
  assumes "r < 6" "get_difficulty_score (zone pz) = Inr sc" "empty_envelope (reply env (calls w))"
  shows "report_loop env pz r w =
     report_loop env pz (Suc r) (w\<lparr>calls := Suc (calls w), trace := trace w @ failed_attempt sc\<rparr>)"
  using assms(1) report_attempt_fail[OF assms(2,3)]
  by (subst report_loop.simps) (simp add: io_defs failed_attempt_def)

lemma report_loop_ok_step:
  assumes "r < 6" "get_difficulty_score (zone pz) = Inr sc" "full_envelope (reply env (calls w))"
  shows "report_loop env pz r w =
     (Inr (), w\<lparr>calls := Suc (calls w),
       trace := trace w @ [Info ''Reporting...'', Http (ReportScore sc), Info ''Reported!'']\<rparr>)"
  using assms(1) report_attempt_ok[OF assms(2,3)]
  by (subst report_loop.simps) (simp add: iobind_def ioreturn_def)

lemma report_loop_fail_run:
  "r + k \<le> 6 \<Longrightarrow> get_difficulty_score (zone pz) = Inr sc \<Longrightarrow>
   (\<forall>i<k. empty_envelope (reply env (calls w + i))) \<Longrightarrow>
   report_loop env pz r w =
     report_loop env pz (r + k)
       (w\<lparr>calls := calls w + k, trace := trace w @ concat (replicate k (failed_attempt sc))\<rparr>)"
proof (induction k arbitrary: r w)
  case 0
  then show ?case by simp
next
  case (Suc k)
  let ?w1 = "w\<lparr>calls := Suc (calls w), trace := trace w @ failed_attempt sc\<rparr>"
  from Suc.prems have r: "r < 6" by simp
  from Suc.prems(3) have e0: "empty_envelope (reply env (calls w))" by force
  have step: "report_loop env pz r w = report_loop env pz (Suc r) ?w1"
    by (rule report_loop_fail_step[OF r Suc.prems(2) e0])
  have "\<forall>i<k. empty_envelope (reply env (calls ?w1 + i))"
  proof (intro allI impI)
    fix i assume "i < k"
    then have "Suc i < Suc k" by simp
    with Suc.prems(3) have "empty_envelope (reply env (calls w + Suc i))" by blast
    then show "empty_envelope (reply env (calls ?w1 + i))" by simp
  qed
  moreover from Suc.prems(1) have "Suc r + k \<le> 6" by simp
  ultimately have "report_loop env pz (Suc r) ?w1 =
     report_loop env pz (Suc r + k)
       (?w1\<lparr>calls := calls ?w1 + k, trace := trace ?w1 @ concat (replicate k (failed_attempt sc))\<rparr>)"
    using Suc.IH[of "Suc r" ?w1] Suc.prems(2) by blast
  with step show ?case by simp
qed

lemma report_loop_exhausted: "report_loop env pz 6 w = (Inr (), w)"
  by (subst report_loop.simps) simp

lemma leave_planet_trace:
  "leave_planet env ap w = (r, w') \<Longrightarrow> trace w' = trace w @ [Http (LeaveGame ap)]"
  by (auto simp: leave_planet_def io_defs split: http_reply.splits)

lemma report_attempt_count:
  "length (filter is_report (trace (snd (report_attempt env pz w)))) \<le>
   Suc (length (filter is_report (trace w)))"
  by (auto simp: report_attempt_def report_score_def io_defs ebind_def
      split: http_reply.splits sum.splits error.splits)

lemma report_loop_count:
  "length (filter is_report (trace (snd (report_loop env pz r w)))) \<le>
   length (filter is_report (trace w)) + (6 - r)"
proof (induction env pz r w rule: report_loop.induct)
  case (1 env pz r w)
  show ?case
  proof (cases "r < 6")
    case False
    then show ?thesis by (subst report_loop.simps) simp
  next
    case True
    obtain res w1 where a: "report_attempt env pz w = (res, w1)" by (cases "report_attempt env pz w")
    have c1: "length (filter is_report (trace w1)) \<le> Suc (length (filter is_report (trace w)))"
      using report_attempt_count[of env pz w] a by simp
    show ?thesis
    proof (cases res)
      case (Inl e)
      with a True c1 show ?thesis by (subst report_loop.simps) (simp add: iobind_def)
    next
      case (Inr b)
      show ?thesis
      proof (cases b)
        case True
        with a Inr \<open>r < 6\<close> c1 show ?thesis
          by (subst report_loop.simps) (simp add: iobind_def ioreturn_def)
      next
        case False
        let ?w2 = "w1\<lparr>trace := trace w1 @ [Info ''Sleeping...'', Slept 10]\<rparr>"
        have eq: "report_loop env pz r w = report_loop env pz (r + 1) ?w2"
          using a Inr False \<open>r < 6\<close> by (subst report_loop.simps) (simp add: io_defs)
        have "length (filter is_report (trace (snd (report_loop env pz (r + 1) ?w2)))) \<le>
              length (filter is_report (trace ?w2)) + (6 - (r + 1))"
          by (rule "1.IH"[OF \<open>r < 6\<close> False])
        with eq c1 \<open>r < 6\<close> show ?thesis by simp
      qed
    qed
  qed
qed

lemma iobind_Inr:
  "iobind m f w = (Inr v, w') \<Longrightarrow> \<exists>x w1. m w = (Inr x, w1) \<and> f x w1 = (Inr v, w')"
  by (auto simp: iobind_def split: prod.splits sum.splits)

lemma info_run: "info s w = (Inr (), w\<lparr>trace := trace w @ [Info s]\<rparr>)"
  by (simp add: info_def emit_def)

lemma gds_boss: "get_difficulty_score (zone (pairing zone_boss)) = Inr (Some 4800)"
  by (simp add: get_difficulty_score_def dict_get_def ebind_def ex_defs)

text \<open>
  Claim C4. The report loop makes at most 6 report calls. When the first 6 replies have an
  empty envelope, each attempt is followed by one wait of 10 seconds, and after the sixth
  the cycle goes on to leave the planet. When \<open>k < 6\<close> replies have an empty envelope and
  the next one does not, the loop stops at that attempt, with no further wait or attempt,
  and the cycle goes on to leave the planet. In both cases the loop raises nothing.
\<close>

theorem report_retry:
  "length (filter is_report (trace (snd (report_loop env pz 0 w)))) \<le>
     length (filter is_report (trace w)) + 6 \<and>
   (get_difficulty_score (zone pz) = Inr sc \<and>
    (\<forall>i<6. empty_envelope (reply env (calls w + i))) \<longrightarrow>
      report_and_leave env pz player_info w =
        leave_planet env (active_planet player_info)
          (w\<lparr>calls := calls w + 6,
             trace := trace w @ concat (replicate 6 (failed_attempt sc)) @
               [Info ''Leaving Planet...'']\<rparr>)) \<and>
   (get_difficulty_score (zone pz) = Inr sc \<and> k < 6 \<and>
    (\<forall>i<k. empty_envelope (reply env (calls w + i))) \<and>
    full_envelope (reply env (calls w + k)) \<longrightarrow>
      report_and_leave env pz player_info w =
        leave_planet env (active_planet player_info)
          (w\<lparr>calls := calls w + k + 1,
             trace := trace w @ concat (replicate k (failed_attempt sc)) @
               [Info ''Reporting...'', Http (ReportScore sc), Info ''Reported!'',
                Info ''Leaving Planet...'']\<rparr>))"
proof (intro conjI impI)
  show "length (filter is_report (trace (snd (report_loop env pz 0 w)))) \<le>
     length (filter is_report (trace w)) + 6"
    using report_loop_count[of env pz 0 w] by simp
next
  assume a: "get_difficulty_score (zone pz) = Inr sc \<and>
    (\<forall>i<6. empty_envelope (reply env (calls w + i)))"
  have "report_loop env pz 0 w =
     report_loop env pz (0 + 6)
       (w\<lparr>calls := calls w + 6, trace := trace w @ concat (replicate 6 (failed_attempt sc))\<rparr>)"
    by (rule report_loop_fail_run) (use a in auto)
  then have "report_loop env pz 0 w =
     (Inr (), w\<lparr>calls := calls w + 6, trace := trace w @ concat (replicate 6 (failed_attempt sc))\<rparr>)"
    by (simp add: report_loop_exhausted)
  then show "report_and_leave env pz player_info w =
        leave_planet env (active_planet player_info)
          (w\<lparr>calls := calls w + 6,
             trace := trace w @ concat (replicate 6 (failed_attempt sc)) @
               [Info ''Leaving Planet...'']\<rparr>)"
    by (simp add: report_and_leave_def iobind_def info_run)
next
  assume a: "get_difficulty_score (zone pz) = Inr sc \<and> k < 6 \<and>
    (\<forall>i<k. empty_envelope (reply env (calls w + i))) \<and>
    full_envelope (reply env (calls w + k))"
  let ?wk = "w\<lparr>calls := calls w + k, trace := trace w @ concat (replicate k (failed_attempt sc))\<rparr>"
  have "report_loop env pz 0 w = report_loop env pz (0 + k) ?wk"
    by (rule report_loop_fail_run) (use a in auto)
  also have "\<dots> = (Inr (), ?wk\<lparr>calls := Suc (calls ?wk),
       trace := trace ?wk @ [Info ''Reporting...'', Http (ReportScore sc), Info ''Reported!'']\<rparr>)"
    using a by (intro report_loop_ok_step) auto
  finally show "report_and_leave env pz player_info w =
        leave_planet env (active_planet player_info)
          (w\<lparr>calls := calls w + k + 1,
             trace := trace w @ concat (replicate k (failed_attempt sc)) @
               [Info ''Reporting...'', Http (ReportScore sc), Info ''Reported!'',
                Info ''Leaving Planet...'']\<rparr>)"
    by (simp add: report_and_leave_def iobind_def info_run)
qed

theorem report_retry_witness:
  "report_and_leave env_empty (pairing zone_boss)
       \<lparr>active_planet = 7, level = 3, score = 4500, next_level_score = 6000\<rparr> world0 =
     (Inr (), \<lparr>calls = 7,
        trace = concat (replicate 6 (failed_attempt (Some 4800))) @
                [Info ''Leaving Planet...'', Http (LeaveGame 7)]\<rparr>) \<and>
   report_and_leave env_flaky (pairing zone_boss)
       \<lparr>active_planet = 7, level = 3, score = 4500, next_level_score = 6000\<rparr> world0 =
     (Inr (), \<lparr>calls = 5,
        trace = concat (replicate 3 (failed_attempt (Some 4800))) @
                [Info ''Reporting...'', Http (ReportScore (Some 4800)), Info ''Reported!'',
                 Info ''Leaving Planet...'', Http (LeaveGame 7)]\<rparr>)"
  using report_retry[of env_empty "pairing zone_boss" world0 "Some 4800"
      "\<lparr>active_planet = 7, level = 3, score = 4500, next_level_score = 6000\<rparr>" 0]
    report_retry[of env_flaky "pairing zone_boss" world0 "Some 4800"
      "\<lparr>active_planet = 7, level = 3, score = 4500, next_level_score = 6000\<rparr>" 3]
    gds_boss
  by (simp add: play_defs empty_envelope_def full_envelope_def leave_planet_def io_defs)

section \<open>Leaving the planet\<close>

lemma cycle_on_7:
  "cycle (env_play player_on_7) world0 =
    (Inr (),
  \<lparr>calls = 8,
     trace =
       [Http GetPlayerInfo, Info ''PlayerInfo'', Http (GetPlanets 1),
        Http (GetPlanet 5), Info ''Leaving Planet...'', Http (LeaveGame 7),
        Info ''Joining Planet...'', Http (JoinPlanet 5),
        Info ''Joining Zone...'', Http (JoinZone (JInt 0)),
        Info ''Joined!'', Info ''Sleeping...'', Slept 20,
        Info ''Sleeping...'', Slept 20, Info ''Sleeping...'', Slept 20,
        Info ''Sleeping...'', Slept 20, Info ''Sleeping...'', Slept 20,
        Info ''Sleeping...'', Slept 20, Info ''Reporting...'',
        Http (ReportScore (Some 4800)), Info ''Reported!'',
        Info ''Leaving Planet...'', Http (LeaveGame 7)]\<rparr>)"
  by (simp add: cycle_def gateway_defs play_defs io_defs ex_defs ebind_def
      find_best_zone_position_def sorted_last_def weight_def dict_get_def py_ge_def
      PlayerInfo_from_json_def PlanetSummary_from_json_def PlanetDetails_from_json_def
      Zone_from_json_def relocate_def py_is_int_def join_zone_step_def
      PlanetZoneTuple_str_def Zone_str_def report_and_leave_def report_loop.simps
      report_attempt_def get_difficulty_score_def eval_nat_numeral float_evals)

lemma cycle_nowhere:
  "cycle (env_play player_nowhere) world0 =
    (Inr (),
  \<lparr>calls = 7,
     trace =
       [Http GetPlayerInfo, Info ''PlayerInfo'', Http (GetPlanets 1),
        Http (GetPlanet 5),
        Info ''Joining Planet...'', Http (JoinPlanet 5),
        Info ''Joining Zone...'', Http (JoinZone (JInt 0)),
        Info ''Joined!'', Info ''Sleeping...'', Slept 20,
        Info ''Sleeping...'', Slept 20, Info ''Sleeping...'', Slept 20,
        Info ''Sleeping...'', Slept 20, Info ''Sleeping...'', Slept 20,
        Info ''Sleeping...'', Slept 20, Info ''Reporting...'',
        Http (ReportScore (Some 4800)), Info ''Reported!'',
        Info ''Leaving Planet...'', Http (LeaveGame (- 1))]\<rparr>)"
  by (simp add: cycle_def gateway_defs play_defs io_defs ex_defs ebind_def
      find_best_zone_position_def sorted_last_def weight_def dict_get_def py_ge_def
      PlayerInfo_from_json_def PlanetSummary_from_json_def PlanetDetails_from_json_def
      Zone_from_json_def relocate_def py_is_int_def join_zone_step_def
      PlanetZoneTuple_str_def Zone_str_def report_and_leave_def report_loop.simps
      report_attempt_def get_difficulty_score_def eval_nat_numeral float_evals)

text \<open>
  Claim C5. In every cycle that runs to its end, the last call is the leave-planet call,
  and its planet is the \<open>active_planet\<close> of the player information fetched at the start
  of the cycle, whatever happened in between and whatever that value is.
\<close>

theorem leave_uses_inspected_planet:
  assumes "cycle env w = (Inr (), w')"
  shows "\<exists>player_info w1 pre.
           get_player_info env w = (Inr player_info, w1) \<and>
           trace w' = pre @ [Info ''Leaving Planet...'',
                              Http (LeaveGame (active_planet player_info))]"
proof -
  from assms obtain player_info w1 where p: "get_player_info env w = (Inr player_info, w1)"
    and r1: "iobind (info ''PlayerInfo'') (\<lambda>_.
     iobind (find_best_zone_position env) (\<lambda>planet_zone.
     iobind (relocate env player_info planet_zone) (\<lambda>_.
     iobind (join_zone_step env planet_zone) (\<lambda>_.
     iobind (sleep 20 6) (\<lambda>_.
     report_and_leave env planet_zone player_info))))) w1 = (Inr (), w')"
    unfolding cycle_def by (blast dest: iobind_Inr)
  from r1 obtain w2 where "iobind (find_best_zone_position env) (\<lambda>planet_zone.
     iobind (relocate env player_info planet_zone) (\<lambda>_.
     iobind (join_zone_step env planet_zone) (\<lambda>_.
     iobind (sleep 20 6) (\<lambda>_.
     report_and_leave env planet_zone player_info)))) w2 = (Inr (), w')"
    by (blast dest: iobind_Inr)
  then obtain planet_zone w3 where "iobind (relocate env player_info planet_zone) (\<lambda>_.
     iobind (join_zone_step env planet_zone) (\<lambda>_.
     iobind (sleep 20 6) (\<lambda>_.
     report_and_leave env planet_zone player_info))) w3 = (Inr (), w')"
    by (blast dest: iobind_Inr)
  then obtain w4 where "iobind (join_zone_step env planet_zone) (\<lambda>_.
     iobind (sleep 20 6) (\<lambda>_.
     report_and_leave env planet_zone player_info)) w4 = (Inr (), w')"
    by (blast dest: iobind_Inr)
  then obtain w5 where "iobind (sleep 20 6) (\<lambda>_.
     report_and_leave env planet_zone player_info) w5 = (Inr (), w')"
    by (blast dest: iobind_Inr)
  then obtain w6 where "report_and_leave env planet_zone player_info w6 = (Inr (), w')"
    by (blast dest: iobind_Inr)
  then obtain w7 where "iobind (info ''Leaving Planet...'') (\<lambda>_.
     leave_planet env (active_planet player_info)) w7 = (Inr (), w')"
    unfolding report_and_leave_def by (blast dest: iobind_Inr)
  then have "leave_planet env (active_planet player_info)
      (w7\<lparr>trace := trace w7 @ [Info ''Leaving Planet...'']\<rparr>) = (Inr (), w')"
    by (simp add: iobind_def info_run)
  from leave_planet_trace[OF this]
  have "trace w' = trace w7 @ [Info ''Leaving Planet...'',
                              Http (LeaveGame (active_planet player_info))]" by simp
  with p show ?thesis by blast
qed

theorem leave_uses_inspected_planet_witness:
  "(\<exists>player_info w1 pre.
      get_player_info (env_play player_on_7) world0 = (Inr player_info, w1) \<and>
      trace (snd (cycle (env_play player_on_7) world0)) =
        pre @ [Info ''Leaving Planet...'', Http (LeaveGame (active_planet player_info))]) \<and>
   (\<exists>player_info w1 pre.
      get_player_info (env_play player_nowhere) world0 = (Inr player_info, w1) \<and>
      trace (snd (cycle (env_play player_nowhere) world0)) =
        pre @ [Info ''Leaving Planet...'', Http (LeaveGame (active_planet player_info))])"
proof -
  have a: "cycle (env_play player_on_7) world0 =
      (Inr (), snd (cycle (env_play player_on_7) world0))"
    by (simp add: cycle_on_7)
  have b: "cycle (env_play player_nowhere) world0 =
      (Inr (), snd (cycle (env_play player_nowhere) world0))"
    by (simp add: cycle_nowhere)
  show ?thesis
    by (rule conjI[OF leave_uses_inspected_planet[OF a] leave_uses_inspected_planet[OF b]])
qed

section \<open>Recovery\<close>

lemma warning_run: "warning s w = (Inr (), w\<lparr>trace := trace w @ [Warning s]\<rparr>)"
  by (simp add: warning_def emit_def)

lemma recover_run:
  "recover env w1 =
     (Inr (),
      case get_player_info env
             (w1\<lparr>trace := trace w1 @ [Warning ''An unknown error occurred'',
                                        Info ''Sleeping...'', Slept 60]\<rparr>) of
        (Inl ee, w3) \<Rightarrow> w3\<lparr>trace := trace w3 @ [Warning ''An unknown error occurred'']\<rparr>
      | (Inr player_info, w3) \<Rightarrow>
          (case leave_planet env (active_planet player_info) w3 of
             (Inl ee, w4) \<Rightarrow> w4\<lparr>trace := trace w4 @ [Warning ''An unknown error occurred'']\<rparr>
           | (Inr u, w4) \<Rightarrow> w4))"
  by (simp add: recover_def io_defs split: prod.splits sum.splits)

lemma iteration_Inr: "fst (iteration env w) = Inr ()"
  by (simp add: iteration_def except_Exception_def recover_run split: prod.splits sum.splits)

lemma loop_Inr: "fst (loop env n w) = Inr ()"
proof (induction n arbitrary: w)
  case 0
  then show ?case by (simp add: ioreturn_def)
next
  case (Suc n)
  obtain w1 where "iteration env w = (Inr (), w1)"
    using iteration_Inr[of env w] by (cases "iteration env w") auto
  with Suc show ?case by (simp add: iobind_def)
qed

lemma loop_Suc: "loop env (Suc n) w = loop env n (snd (iteration env w))"
proof -
  obtain w1 where "iteration env w = (Inr (), w1)"
    using iteration_Inr[of env w] by (cases "iteration env w") auto
  then show ?thesis by (simp add: iobind_def)
qed

text \<open>
  Claim C9. An iteration of the loop never raises. When the cycle raises, the handler
  logs a warning, waits 60 seconds, fetches the player information and leaves its active
  planet; if either call raises, a warning is logged and nothing is raised. The loop then
  goes on with the next iteration: no number of iterations ends with an error.
\<close>

theorem errors_not_fatal:
  "fst (iteration env w) = Inr () \<and>
   (cycle env w = (Inl e, w1) \<longrightarrow>
      iteration env w =
        (Inr (),
         case get_player_info env
                (w1\<lparr>trace := trace w1 @ [Warning ''An unknown error occurred'',
                                           Info ''Sleeping...'', Slept 60]\<rparr>) of
           (Inl ee, w3) \<Rightarrow> w3\<lparr>trace := trace w3 @ [Warning ''An unknown error occurred'']\<rparr>
         | (Inr player_info, w3) \<Rightarrow>
             (case leave_planet env (active_planet player_info) w3 of
                (Inl ee, w4) \<Rightarrow> w4\<lparr>trace := trace w4 @ [Warning ''An unknown error occurred'']\<rparr>
              | (Inr u, w4) \<Rightarrow> w4))) \<and>
   fst (loop env n w) = Inr () \<and>
   loop env (Suc n) w = loop env n (snd (iteration env w))"
proof (intro conjI impI)
  show "fst (iteration env w) = Inr ()" by (rule iteration_Inr)
next
  assume "cycle env w = (Inl e, w1)"
  then have "iteration env w = recover env w1"
    by (simp add: iteration_def except_Exception_def)
  then show "iteration env w =
        (Inr (),
         case get_player_info env
                (w1\<lparr>trace := trace w1 @ [Warning ''An unknown error occurred'',
                                           Info ''Sleeping...'', Slept 60]\<rparr>) of
           (Inl ee, w3) \<Rightarrow> w3\<lparr>trace := trace w3 @ [Warning ''An unknown error occurred'']\<rparr>
         | (Inr player_info, w3) \<Rightarrow>
             (case leave_planet env (active_planet player_info) w3 of
                (Inl ee, w4) \<Rightarrow> w4\<lparr>trace := trace w4 @ [Warning ''An unknown error occurred'']\<rparr>
              | (Inr u, w4) \<Rightarrow> w4))"
    by (simp only: recover_run)
next
  show "fst (loop env n w) = Inr ()" by (rule loop_Inr)
next
  show "loop env (Suc n) w = loop env n (snd (iteration env w))" by (rule loop_Suc)
qed

lemma cycle_down: "cycle env_down world0 = (Inl RequestException, \<lparr>calls = 1, trace = [Http GetPlayerInfo]\<rparr>)"
  by (simp add: cycle_def gateway_defs play_defs io_defs)

theorem errors_not_fatal_witness:
  "cycle env_down world0 = (Inl RequestException, \<lparr>calls = 1, trace = [Http GetPlayerInfo]\<rparr>) \<and>
   iteration env_down world0 =
     (Inr (), \<lparr>calls = 2,
        trace = [Http GetPlayerInfo, Warning ''An unknown error occurred'',
                 Info ''Sleeping...'', Slept 60, Http GetPlayerInfo,
                 Warning ''An unknown error occurred'']\<rparr>)"
  using errors_not_fatal[of env_down world0 RequestException
      "\<lparr>calls = 1, trace = [Http GetPlayerInfo]\<rparr>" 0] cycle_down
  by (simp add: gateway_defs play_defs io_defs)

end
